theory Spec2Isabelle
  imports Main "HOL-Library.Word"
begin

section \<open>Machine types and memory\<close>

type_synonym byte = "8 word"
type_synonym u32 = "32 word"
type_synonym size_t = "64 word"

text \<open>
  \<open>ssize_t\<close> and \<open>loff_t\<close> are signed 64-bit integers; they are kept as their 64 bits
  and read with \<open>sint\<close>. The driver is built for 64-bit kernels, where \<open>size_t\<close> is 64 bits wide.
\<close>

type_synonym ssize_t = "64 word"
type_synonym loff_t = "64 word"

text \<open>
  The bytes found at a pointer, indexed by the distance from it (\<open>p[i]\<close> is \<open>m i\<close>).
\<close>

type_synonym mem = "nat \<Rightarrow> byte"

text \<open>\<open>memcpy(dest, src, n)\<close>: the first \<open>n\<close> bytes of \<open>dest\<close> become those of \<open>src\<close>.\<close>

definition memcpy :: "mem \<Rightarrow> mem \<Rightarrow> nat \<Rightarrow> mem" where
  "memcpy dest src n = (\<lambda>i. if i < n then src i else dest i)"

text \<open>Pointer arithmetic \<open>((char *)p) + offset\<close>: the bytes seen from \<open>offset\<close> bytes further on.\<close>

definition ptr_add :: "mem \<Rightarrow> nat \<Rightarrow> mem" where
  "ptr_add p offset = (\<lambda>i. p (offset + i))"

section \<open>xocl\_sysfs.c: the binary attributes\<close>

text \<open>
  The fields of \<open>struct xocl_dev\<close> that the binary attributes read: four pointers to
  bitstream metadata sections, each given by the bytes it points to.
\<close>

record xocl_dev =
  debug_layout :: mem
  layout :: mem
  connectivity :: mem
  topology :: mem

text \<open>
  The macro \<open>sizeof_sect(sect, data)\<close> comes from the driver's headers, which are not part of
  the sources at hand. It computes the size of a section from the \<open>m_count\<close> field of the
  section's header; each read function below takes it as the parameter \<open>sizeof_sect\<close>, a
  function of the section pointed to.

  In each read function \<open>offset\<close> is a \<open>loff_t\<close> and \<open>size\<close>, \<open>count\<close> are \<open>size_t\<close>: the
  comparison \<open>offset >= size\<close> and the difference \<open>size - offset\<close> are evaluated on unsigned
  64-bit operands (a negative \<open>offset\<close> keeps its bits). \<open>nread\<close> is a \<open>u32\<close>: both
  assignments to it keep the low 32 bits. The function returns the caller's buffer after the
  call together with the returned \<open>ssize_t\<close>.
\<close>

definition read_debug_ip_layout ::
  "(mem \<Rightarrow> size_t) \<Rightarrow> xocl_dev \<Rightarrow> mem \<Rightarrow> loff_t \<Rightarrow> size_t \<Rightarrow> mem \<times> ssize_t" where
  "read_debug_ip_layout sizeof_sect xdev buffer offset count =
     (let size = sizeof_sect (debug_layout xdev) in
      if offset \<ge> size then (buffer, 0)
      else
        let nread :: u32 = (if count < size - offset then ucast count else ucast (size - offset))
        in (memcpy buffer (ptr_add (debug_layout xdev) (unat offset)) (unat nread), ucast nread))"

definition read_ip_layout ::
  "(mem \<Rightarrow> size_t) \<Rightarrow> xocl_dev \<Rightarrow> mem \<Rightarrow> loff_t \<Rightarrow> size_t \<Rightarrow> mem \<times> ssize_t" where
  "read_ip_layout sizeof_sect xdev buffer offset count =
     (let size = sizeof_sect (layout xdev) in
      if offset \<ge> size then (buffer, 0)
      else
        let nread :: u32 = (if count < size - offset then ucast count else ucast (size - offset))
        in (memcpy buffer (ptr_add (layout xdev) (unat offset)) (unat nread), ucast nread))"

definition read_connectivity ::
  "(mem \<Rightarrow> size_t) \<Rightarrow> xocl_dev \<Rightarrow> mem \<Rightarrow> loff_t \<Rightarrow> size_t \<Rightarrow> mem \<times> ssize_t" where
  "read_connectivity sizeof_sect xdev buffer offset count =
     (let size = sizeof_sect (connectivity xdev) in
      if offset \<ge> size then (buffer, 0)
      else
        let nread :: u32 = (if count < size - offset then ucast count else ucast (size - offset))
        in (memcpy buffer (ptr_add (connectivity xdev) (unat offset)) (unat nread), ucast nread))"

definition read_mem_topology ::
  "(mem \<Rightarrow> size_t) \<Rightarrow> xocl_dev \<Rightarrow> mem \<Rightarrow> loff_t \<Rightarrow> size_t \<Rightarrow> mem \<times> ssize_t" where
  "read_mem_topology sizeof_sect xdev buffer offset count =
     (let size = sizeof_sect (topology xdev) in
      if offset \<ge> size then (buffer, 0)
      else
        let nread :: u32 = (if count < size - offset then ucast count else ucast (size - offset))
        in (memcpy buffer (ptr_add (topology xdev) (unat offset)) (unat nread), ucast nread))"

section \<open>xocl\_sysfs.c: the attribute tables\<close>

text \<open>
  \<open>struct attribute\<close>, \<open>struct device_attribute\<close> and \<open>struct bin_attribute\<close> of the kernel's
  device model. A handler that is \<open>NULL\<close> is \<open>None\<close>. The six \<open>show\<close> handlers are named by
  a datatype; the \<open>store\<close> and \<open>read\<close> handlers are the functions of this theory, with
  their outside dependencies (\<open>xocl_hot_reset\<close>, \<open>sizeof_sect\<close>) as leading parameters.
\<close>

record attribute =
  name :: string
  mode :: nat

datatype show_handler =
  xclbinuuid_show | userbar_show | user_pf_show | kdsstat_show | memstat_show | memstat_raw_show

type_synonym store_handler =
  "(xocl_dev \<Rightarrow> bool \<Rightarrow> 32 word) \<Rightarrow> xocl_dev \<Rightarrow> string \<Rightarrow> size_t \<Rightarrow> ssize_t"

type_synonym read_handler =
  "(mem \<Rightarrow> size_t) \<Rightarrow> xocl_dev \<Rightarrow> mem \<Rightarrow> loff_t \<Rightarrow> size_t \<Rightarrow> mem \<times> ssize_t"

type_synonym write_handler =
  "xocl_dev \<Rightarrow> mem \<Rightarrow> loff_t \<Rightarrow> size_t \<Rightarrow> ssize_t"

record device_attribute =
  attr :: attribute
  show_fn :: "show_handler option"
  store_fn :: "store_handler option"

record bin_attribute =
  bin_attr :: attribute
  read_fn :: "read_handler option"
  write_fn :: "write_handler option"
  bin_size :: size_t

text \<open>The access modes \<open>0444\<close> and \<open>0200\<close> are octal.\<close>

definition mode_0444 :: nat where
  "mode_0444 = 4 * 8 ^ 2 + 4 * 8 + 4"

definition mode_0200 :: nat where
  "mode_0200 = 2 * 8 ^ 2"

text \<open>
  The kernel macros \<open>DEVICE_ATTR_RO(n)\<close> and \<open>DEVICE_ATTR_WO(n)\<close>: the attribute is named
  \<open>n\<close>; the first has mode \<open>0444\<close> and the handler \<open>n_show\<close> only, the second has mode
  \<open>0200\<close> and the handler \<open>n_store\<close> only.
\<close>

definition DEVICE_ATTR_RO :: "string \<Rightarrow> show_handler \<Rightarrow> device_attribute" where
  "DEVICE_ATTR_RO n sh =
     \<lparr>attr = \<lparr>name = n, mode = mode_0444\<rparr>, show_fn = Some sh, store_fn = None\<rparr>"

definition DEVICE_ATTR_WO :: "string \<Rightarrow> store_handler \<Rightarrow> device_attribute" where
  "DEVICE_ATTR_WO n st =
     \<lparr>attr = \<lparr>name = n, mode = mode_0200\<rparr>, show_fn = None, store_fn = Some st\<rparr>"

text \<open>
  \<open>reset_store\<close>: \<open>xocl_hot_reset\<close> is defined elsewhere in the driver and is a parameter;
  only the \<open>int\<close> it returns matters here. \<open>return ret\<close> widens the \<open>int\<close> to
  \<open>ssize_t\<close> with its sign.
\<close>

definition reset_store :: store_handler where
  "reset_store xocl_hot_reset dev buf count =
     (let ret = xocl_hot_reset dev False in
      if ret = 0 then count else scast ret)"

definition dev_attr_xclbinuuid :: device_attribute where
  "dev_attr_xclbinuuid = DEVICE_ATTR_RO ''xclbinuuid'' xclbinuuid_show"

definition dev_attr_userbar :: device_attribute where
  "dev_attr_userbar = DEVICE_ATTR_RO ''userbar'' userbar_show"

definition dev_attr_user_pf :: device_attribute where
  "dev_attr_user_pf = DEVICE_ATTR_RO ''user_pf'' user_pf_show"

definition dev_attr_kdsstat :: device_attribute where
  "dev_attr_kdsstat = DEVICE_ATTR_RO ''kdsstat'' kdsstat_show"

definition dev_attr_memstat :: device_attribute where
  "dev_attr_memstat = DEVICE_ATTR_RO ''memstat'' memstat_show"

definition dev_attr_memstat_raw :: device_attribute where
  "dev_attr_memstat_raw = DEVICE_ATTR_RO ''memstat_raw'' memstat_raw_show"

definition dev_attr_reset :: device_attribute where
  "dev_attr_reset = DEVICE_ATTR_WO ''reset'' reset_store"

definition debug_ip_layout_attr :: bin_attribute where
  "debug_ip_layout_attr =
     \<lparr>bin_attr = \<lparr>name = ''debug_ip_layout'', mode = mode_0444\<rparr>,
      read_fn = Some read_debug_ip_layout, write_fn = None, bin_size = 0\<rparr>"

definition ip_layout_attr :: bin_attribute where
  "ip_layout_attr =
     \<lparr>bin_attr = \<lparr>name = ''ip_layout'', mode = mode_0444\<rparr>,
      read_fn = Some read_ip_layout, write_fn = None, bin_size = 0\<rparr>"

definition connectivity_attr :: bin_attribute where
  "connectivity_attr =
     \<lparr>bin_attr = \<lparr>name = ''connectivity'', mode = mode_0444\<rparr>,
      read_fn = Some read_connectivity, write_fn = None, bin_size = 0\<rparr>"

definition mem_topology_attr :: bin_attribute where
  "mem_topology_attr =
     \<lparr>bin_attr = \<lparr>name = ''mem_topology'', mode = mode_0444\<rparr>,
      read_fn = Some read_mem_topology, write_fn = None, bin_size = 0\<rparr>"

text \<open>The two \<open>NULL\<close>-terminated arrays, as the lists of their entries before the \<open>NULL\<close>.\<close>

definition xocl_attrs :: "device_attribute list" where
  "xocl_attrs =
     [dev_attr_xclbinuuid, dev_attr_userbar, dev_attr_kdsstat, dev_attr_memstat,
      dev_attr_memstat_raw, dev_attr_user_pf, dev_attr_reset]"

definition xocl_bin_attrs :: "bin_attribute list" where
  "xocl_bin_attrs =
     [debug_ip_layout_attr, ip_layout_attr, connectivity_attr, mem_topology_attr]"

record attribute_group =
  attrs :: "device_attribute list"
  bin_attrs :: "bin_attribute list"

definition xocl_attr_group :: attribute_group where
  "xocl_attr_group = \<lparr>attrs = xocl_attrs, bin_attrs = xocl_bin_attrs\<rparr>"

text \<open>
  \<open>xocl_init_sysfs\<close>: the kernel's \<open>sysfs_create_group\<close> is a parameter giving the
  \<open>int\<close> it returns for a group. The kernel log is a list of entries, each the format string
  of an \<open>xocl_err\<close> call with its integer argument; the function returns its \<open>int\<close> and
  the log after the call.
\<close>

type_synonym klog = "(string \<times> int) list"

definition xocl_err :: "klog \<Rightarrow> string \<Rightarrow> 32 word \<Rightarrow> klog" where
  "xocl_err log fmt arg = log @ [(fmt, sint arg)]"

definition xocl_init_sysfs :: "(attribute_group \<Rightarrow> 32 word) \<Rightarrow> klog \<Rightarrow> 32 word \<times> klog" where
  "xocl_init_sysfs sysfs_create_group log =
     (let ret = sysfs_create_group xocl_attr_group in
      if ret \<noteq> 0 then (ret, xocl_err log ''create xocl attrs failed: %d'' ret)
      else (ret, log))"

section \<open>device.cpp: outcomes, strings and pointers\<close>

text \<open>
  What a C++ call can end in besides returning: the exceptions thrown in the file
  (\<open>std::runtime_error\<close> with its message, \<open>xrt_core::error\<close> for an unsupported
  \<open>boost::any\<close>, \<open>query::no_such_key\<close>), any other exception of the query layer, and the
  trap of an integer division by zero. \<open>Inl\<close> is such an end, \<open>Inr\<close> a returned value.
\<close>

datatype any_type =
  typeid_string | typeid_uint64_t | typeid_uint16_t | typeid_uint8_t | typeid_bool | typeid_int
  | typeid_other string

datatype failure =
  runtime_error string
  | error_unsupported_any_typeid any_type
  | no_such_key
  | other_exception string
  | division_by_zero

definition bind_result :: "failure + 'a \<Rightarrow> ('a \<Rightarrow> failure + 'b) \<Rightarrow> failure + 'b" where
  "bind_result r f = (case r of Inl e \<Rightarrow> Inl e | Inr x \<Rightarrow> f x)"

text \<open>Division of \<open>size_t\<close> values, with the division by zero made visible.\<close>

definition size_div :: "size_t \<Rightarrow> size_t \<Rightarrow> failure + size_t" where
  "size_div a b = (if b = 0 then Inl division_by_zero else Inr (a div b))"

text \<open>
  The digits of a number in base \<open>b\<close>, most significant first, without leading zeros:
  \<open>std::to_string\<close> of an unsigned integer is the case \<open>b = 10\<close>, and the conversion
  \<open>%x\<close> of \<open>boost::format\<close> on an unsigned integer is the case \<open>b = 16\<close>.
  Only these two bases are used; the test \<open>b < 2\<close> is there for the recursion to end.
\<close>

definition digit_char :: "nat \<Rightarrow> char" where
  "digit_char d = ''0123456789abcdef'' ! d"

function to_digits :: "nat \<Rightarrow> nat \<Rightarrow> string" where
  "to_digits b n =
     (if b < 2 \<or> n < b then [digit_char n]
      else to_digits b (n div b) @ [digit_char (n mod b)])"
  by pat_completeness auto
termination
  by (relation "measure snd") auto

definition std_to_string :: "nat \<Rightarrow> string" where
  "std_to_string n = to_digits 10 n"

definition format_0x :: "nat \<Rightarrow> string" where
  "format_0x n = ''0x'' @ to_digits 16 n"

text \<open>
  Reading digits back: the value of a digit character, and the number a string of digits
  denotes in base \<open>b\<close>. They say what a rendering is a rendering of.
\<close>

definition digit_value :: "char \<Rightarrow> nat" where
  "digit_value c = length (takeWhile (\<lambda>d. d \<noteq> c) ''0123456789abcdef'')"

definition of_digits :: "nat \<Rightarrow> string \<Rightarrow> nat" where
  "of_digits b cs = foldl (\<lambda>a c. a * b + digit_value c) 0 cs"

text \<open>
  A \<open>const char*\<close>: \<open>None\<close> is \<open>nullptr\<close>, \<open>Some bs\<close> points to the bytes \<open>bs\<close>.

  \<open>std::vector<char>::data()\<close> is not null for a vector that holds bytes. For an empty
  vector the C++ standard leaves open whether it is null; \<open>empty_null\<close> says whether the
  library in use returns \<open>nullptr\<close> there (the common implementations do for a vector that
  never allocated, such as one built from an empty range).
\<close>

type_synonym char_ptr = "byte list option"

definition vector_data :: "bool \<Rightarrow> byte list \<Rightarrow> char_ptr" where
  "vector_data empty_null v = (if v = [] \<and> empty_null then None else Some v)"

definition vector_size :: "byte list \<Rightarrow> size_t" where
  "vector_size v = of_nat (length v)"

section \<open>device.cpp: the xclbin sections of a device\<close>

text \<open>
  \<open>xrt_core::uuid\<close> wraps the 16 bytes of a \<open>uuid_t\<close>; they are kept as one 128-bit value.
  The default-constructed uuid is the null one, and a uuid converts to \<open>true\<close> when it is
  not null.
\<close>

type_synonym uuid = "128 word"

definition uuid_null :: uuid where
  "uuid_null = 0"

definition uuid_bool :: "uuid \<Rightarrow> bool" where
  "uuid_bool u = (u \<noteq> uuid_null)"

text \<open>
  The enumeration \<open>axlf_section_kind\<close> of xclbin.h: the five kinds this file names, and
  \<open>OTHER_KIND n\<close> for every other enumerator.
\<close>

datatype axlf_section_kind =
  EMBEDDED_METADATA | AIE_METADATA | IP_LAYOUT | CONNECTIVITY | MEM_TOPOLOGY | OTHER_KIND nat

record axlf_section_header =
  m_sectionKind :: axlf_section_kind
  m_sectionOffset :: "64 word"
  m_sectionSize :: "64 word"

record axlf_header =
  header_uuid :: uuid

text \<open>An \<open>axlf\<close> image: its header, and the bytes found at the pointer \<open>top\<close>.\<close>

record axlf =
  m_header :: axlf_header
  axlf_bytes :: mem

record device =
  m_device_id :: "32 word"
  m_xclbin_uuid :: uuid
  m_axlf_sections :: "axlf_section_kind \<rightharpoonup> byte list"

text \<open>\<open>std::map::emplace\<close> inserts only when the key is not in the map yet.\<close>

definition emplace :: "('k \<rightharpoonup> 'v) \<Rightarrow> 'k \<Rightarrow> 'v \<Rightarrow> ('k \<rightharpoonup> 'v)" where
  "emplace m k v = (case m k of None \<Rightarrow> m(k \<mapsto> v) | Some _ \<Rightarrow> m)"

definition kinds :: "axlf_section_kind list" where
  "kinds = [EMBEDDED_METADATA, AIE_METADATA, IP_LAYOUT, CONNECTIVITY, MEM_TOPOLOGY]"

text \<open>
  \<open>register_axlf\<close>. The lookup \<open>::xclbin::get_axlf_section(top, kind)\<close> of xclbin.h is not
  part of the sources at hand; it is the parameter \<open>xclbin_get_axlf_section\<close>, giving the
  section header of that kind or \<open>None\<close> for \<open>NULL\<close>. The loop over \<open>kinds\<close> is
  \<open>register_axlf_loop\<close>; \<open>continue\<close> is the first case.
\<close>

fun register_axlf_loop ::
  "(axlf \<Rightarrow> axlf_section_kind \<Rightarrow> axlf_section_header option) \<Rightarrow> axlf \<Rightarrow>
   axlf_section_kind list \<Rightarrow> device \<Rightarrow> device" where
  "register_axlf_loop xclbin_get_axlf_section top' [] d = d"
| "register_axlf_loop xclbin_get_axlf_section top' (kind # ks) d =
     (case xclbin_get_axlf_section top' kind of
        None \<Rightarrow> register_axlf_loop xclbin_get_axlf_section top' ks d
      | Some hdr \<Rightarrow>
          let section_data = ptr_add (axlf_bytes top') (unat (m_sectionOffset hdr));
              data = map section_data [0 ..< unat (m_sectionSize hdr)]
          in register_axlf_loop xclbin_get_axlf_section top' ks
               (d\<lparr>m_axlf_sections := emplace (m_axlf_sections d) kind data\<rparr>))"

definition register_axlf ::
  "(axlf \<Rightarrow> axlf_section_kind \<Rightarrow> axlf_section_header option) \<Rightarrow> axlf \<Rightarrow> device \<Rightarrow> device" where
  "register_axlf xclbin_get_axlf_section top' d =
     (let d1 = d\<lparr>m_axlf_sections := Map.empty\<rparr>;
          d2 = d1\<lparr>m_xclbin_uuid := header_uuid (m_header top')\<rparr>
      in register_axlf_loop xclbin_get_axlf_section top' kinds d2)"

text \<open>
  The methods below are \<open>const\<close>; each returns its outcome together with the device after
  the call.
\<close>

definition get_axlf_section ::
  "bool \<Rightarrow> axlf_section_kind \<Rightarrow> uuid \<Rightarrow> device \<Rightarrow> (failure + char_ptr \<times> size_t) \<times> device" where
  "get_axlf_section empty_null section xclbin_id d =
     (if uuid_bool xclbin_id \<and> xclbin_id \<noteq> m_xclbin_uuid d
      then (Inl (runtime_error ''xclbin id mismatch''), d)
      else
        (case m_axlf_sections d section of
           Some v \<Rightarrow> (Inr (vector_data empty_null v, vector_size v), d)
         | None \<Rightarrow> (Inr (None, 0), d)))"

definition get_axlf_section_or_error ::
  "bool \<Rightarrow> axlf_section_kind \<Rightarrow> uuid \<Rightarrow> device \<Rightarrow> (failure + char_ptr \<times> size_t) \<times> device" where
  "get_axlf_section_or_error empty_null section xclbin_id d =
     (case get_axlf_section empty_null section xclbin_id d of
        (Inl e, d') \<Rightarrow> (Inl e, d')
      | (Inr ret, d') \<Rightarrow>
          if fst ret \<noteq> None then (Inr ret, d')
          else (Inl (runtime_error ''no such xclbin section''), d'))"

section \<open>device.cpp: command queue slots\<close>

definition apostrophe :: char where
  "apostrophe = CHR 0x27"

text \<open>
  \<open>get_ert_slots(xml_data, xml_size)\<close>. Four things it uses live outside the sources at
  hand and are parameters: the constant \<open>ERT_CQ_SIZE\<close> of ert.h, the value
  \<open>config::get_ert_slotsize()\<close> returns (an unsigned number, as the \<open>size_t\<close> it becomes in
  \<open>cq_size / size\<close>), and the two readers \<open>xrt_core::xclbin::get_cus\<close> and
  \<open>xrt_core::xclbin::get_max_cu_size\<close> of the xml metadata, each of which returns a value
  or ends in an exception. Every division is \<open>size_div\<close>, so that a zero divisor shows.
\<close>

definition get_ert_slots_xml ::
  "size_t \<Rightarrow> size_t \<Rightarrow> (char_ptr \<Rightarrow> size_t \<Rightarrow> failure + 64 word list) \<Rightarrow>
   (char_ptr \<Rightarrow> size_t \<Rightarrow> failure + size_t) \<Rightarrow> char_ptr \<Rightarrow> size_t \<Rightarrow>
   failure + size_t \<times> size_t" where
  "get_ert_slots_xml ERT_CQ_SIZE get_ert_slotsize get_cus get_max_cu_size xml_data xml_size =
     (let max_slots = (128 :: size_t);
          min_slots = (16 :: size_t);
          cq_size = ERT_CQ_SIZE;
          size = get_ert_slotsize
      in
      if size \<noteq> 0 then
        bind_result (size_div cq_size size) (\<lambda>q.
          if q > max_slots
          then Inl (runtime_error
                 (''invalid slot size '' @ [apostrophe] @ std_to_string (unat size) @
                  [apostrophe] @ '' in xrt.ini''))
          else bind_result (size_div cq_size size) (\<lambda>q'. Inr (q', size)))
      else
        bind_result (get_cus xml_data xml_size) (\<lambda>cus.
          let num_cus = (of_nat (length cus) :: size_t);
              slots = min max_slots (max min_slots ((num_cus * 2) + 1))
          in
          bind_result (size_div cq_size slots) (\<lambda>q.
          bind_result (get_max_cu_size xml_data xml_size) (\<lambda>max_cu_size.
            let size = max q max_cu_size in
            bind_result (size_div cq_size size) (\<lambda>slots.
              let slots = (if slots > 16
                           then (let idx = (slots - 1) div 32 in (idx + 1) * 32)
                           else slots)
              in bind_result (size_div cq_size slots) (\<lambda>sz. Inr (slots, sz)))))))"

text \<open>
  \<open>get_ert_slots()\<close>. The call \<open>get_axlf_section(EMBEDDED_METADATA)\<close> leaves the xclbin id
  to its default argument, the null uuid.
\<close>

definition get_ert_slots ::
  "bool \<Rightarrow> size_t \<Rightarrow> size_t \<Rightarrow> (char_ptr \<Rightarrow> size_t \<Rightarrow> failure + 64 word list) \<Rightarrow>
   (char_ptr \<Rightarrow> size_t \<Rightarrow> failure + size_t) \<Rightarrow> device \<Rightarrow>
   (failure + size_t \<times> size_t) \<times> device" where
  "get_ert_slots empty_null ERT_CQ_SIZE get_ert_slotsize get_cus get_max_cu_size d =
     (case get_axlf_section empty_null EMBEDDED_METADATA uuid_null d of
        (Inl e, d') \<Rightarrow> (Inl e, d')
      | (Inr xml, d') \<Rightarrow>
          if fst xml = None then (Inl (runtime_error ''No xml metadata in xclbin''), d')
          else (get_ert_slots_xml ERT_CQ_SIZE get_ert_slotsize get_cus get_max_cu_size
                  (fst xml) (snd xml), d'))"

section \<open>device.cpp: formatting a boost::any\<close>

text \<open>
  A \<open>boost::any\<close> is a value tagged with its type: the types the file tests for, \<open>int\<close>
  (which the shifts below produce), and \<open>Any_other n\<close> for a value of any other type,
  named \<open>n\<close>.
\<close>

datatype boost_any =
  Any_string string
  | Any_uint64_t "64 word"
  | Any_uint16_t "16 word"
  | Any_uint8_t "8 word"
  | Any_bool bool
  | Any_int "32 word"
  | Any_other string

fun any_typeid :: "boost_any \<Rightarrow> any_type" where
  "any_typeid (Any_string _) = typeid_string"
| "any_typeid (Any_uint64_t _) = typeid_uint64_t"
| "any_typeid (Any_uint16_t _) = typeid_uint16_t"
| "any_typeid (Any_uint8_t _) = typeid_uint8_t"
| "any_typeid (Any_bool _) = typeid_bool"
| "any_typeid (Any_int _) = typeid_int"
| "any_typeid (Any_other n) = typeid_other n"

text \<open>
  Each equation is one branch of the source's chain of \<open>_data.type() == typeid(T)\<close> tests
  with its \<open>any_cast<T>\<close>, in the order of the source; the last one is the final \<open>else\<close>.
\<close>

fun format_primative :: "boost_any \<Rightarrow> failure + string" where
  "format_primative (Any_string s) = Inr s"
| "format_primative (Any_uint64_t v) = Inr (std_to_string (unat v))"
| "format_primative (Any_uint16_t v) = Inr (std_to_string (unat v))"
| "format_primative (Any_bool b) = Inr (if b then ''true'' else ''false'')"
| "format_primative data = Inl (error_unsupported_any_typeid (any_typeid data))"

text \<open>
  \<open>boost::format\<close> writes its argument with the stream's \<open>operator<<\<close>, which prints a
  \<open>uint64_t\<close> or \<open>uint16_t\<close> as a number (in base 16 under \<open>%x\<close>) and a \<open>uint8_t\<close>,
  an \<open>unsigned char\<close>, as the character with that code.
\<close>

fun format_hex :: "boost_any \<Rightarrow> failure + string" where
  "format_hex (Any_uint64_t v) = Inr (format_0x (unat v))"
| "format_hex (Any_uint16_t v) = Inr (format_0x (unat v))"
| "format_hex (Any_uint8_t v) = Inr (''0x'' @ [char_of (unat v)])"
| "format_hex data = format_primative data"

text \<open>
  \<open>format_hex_base2_shiftup30\<close>. On a \<open>uint64_t\<close> the shift is a 64-bit one and keeps the
  type. A \<open>uint16_t\<close> or \<open>uint8_t\<close> operand is first promoted to \<open>int\<close>, so the shifted
  value is an \<open>int\<close> (its 32 bits are kept), and that is what the new \<open>boost::any\<close> holds.
\<close>

fun format_hex_base2_shiftup30 :: "boost_any \<Rightarrow> failure + string" where
  "format_hex_base2_shiftup30 (Any_uint64_t v) =
     (let modifiedValue = Any_uint64_t (push_bit 30 v) in format_hex modifiedValue)"
| "format_hex_base2_shiftup30 (Any_uint16_t v) =
     (let modifiedValue = Any_int (push_bit 30 (ucast v)) in format_hex modifiedValue)"
| "format_hex_base2_shiftup30 (Any_uint8_t v) =
     (let modifiedValue = Any_int (push_bit 30 (ucast v)) in format_hex modifiedValue)"
| "format_hex_base2_shiftup30 data = format_primative data"

section \<open>device.cpp: the xclbin uuid of the device\<close>

text \<open>
  \<open>get_xclbin_uuid\<close>. The query \<open>device_query<query::xclbin_uuid>(this)\<close> and the
  constructor of a uuid from a string are defined elsewhere and are parameters; each returns
  a value or ends in an exception. Both run inside the \<open>try\<close> block, whose handler catches
  \<open>query::no_such_key\<close> and falls through to \<open>return uuid()\<close>.
\<close>

definition get_xclbin_uuid ::
  "(device \<Rightarrow> failure + string) \<Rightarrow> (string \<Rightarrow> failure + uuid) \<Rightarrow> device \<Rightarrow> failure + uuid" where
  "get_xclbin_uuid device_query_xclbin_uuid uuid_of_string this =
     (case bind_result (device_query_xclbin_uuid this) uuid_of_string of
        Inr u \<Rightarrow> Inr u
      | Inl no_such_key \<Rightarrow> Inr uuid_null
      | Inl e \<Rightarrow> Inl e)"

section \<open>Properties of the binary attribute reads\<close>

text \<open>Narrowing a \<open>size_t\<close> below \<open>2 ^ 32\<close> to a \<open>u32\<close> and widening it again loses nothing.\<close>

lemma unat_ucast_small:
  fixes w :: "64 word"
  assumes "unat w < 2 ^ 32"
  shows "unat (ucast w :: 32 word) = unat w"
proof -
  have "unat (ucast w :: 32 word) = take_bit 32 (unat w)"
    by (simp only: unsigned_ucast_eq) simp
  also have "\<dots> = unat w"
    using assms by (simp add: take_bit_nat_eq_self)
  finally show ?thesis .
qed

lemma ucast_ucast_small:
  fixes w :: "64 word"
  assumes "unat w < 2 ^ 32"
  shows "(ucast (ucast w :: 32 word) :: 64 word) = w"
proof -
  have "unat (ucast (ucast w :: 32 word) :: 64 word) = take_bit 64 (unat (ucast w :: 32 word))"
    by (simp only: unsigned_ucast_eq) (simp add: unsigned_take_bit_eq)
  also have "\<dots> = take_bit 64 (unat w)"
    by (simp only: unat_ucast_small [OF assms])
  also have "\<dots> = unat w"
    using assms by (simp add: take_bit_nat_eq_self)
  finally show ?thesis
    by (simp only: word_unat_eq_iff)
qed

lemma nread_exact:
  fixes size offset count :: "64 word"
  assumes lt: "\<not> size \<le> offset"
    and small: "min (unat count) (unat size - unat offset) < 2 ^ 32"
  shows "unat ((if count < size - offset then ucast count else ucast (size - offset)) :: 32 word)
         = min (unat count) (unat size - unat offset)"
    and "(ucast ((if count < size - offset then ucast count else ucast (size - offset)) :: 32 word) :: 64 word)
         = of_nat (min (unat count) (unat size - unat offset))"
proof -
  from lt have le: "offset \<le> size" by simp
  have sub: "unat (size - offset) = unat size - unat offset"
    using le by (simp add: unat_sub)
  show "unat ((if count < size - offset then ucast count else ucast (size - offset)) :: 32 word)
         = min (unat count) (unat size - unat offset)"
  proof (cases "count < size - offset")
    case True
    then have c: "unat count < unat size - unat offset" using sub by (simp add: word_less_nat_alt)
    with small have "unat count < 2 ^ 32" by simp
    then show ?thesis using True c by (simp add: unat_ucast_small)
  next
    case False
    then have c: "unat size - unat offset \<le> unat count" using sub by (simp add: word_less_nat_alt)
    with small sub have "unat (size - offset) < 2 ^ 32" by (simp add: min_def split: if_splits)
    then show ?thesis using False c sub by (simp add: unat_ucast_small)
  qed
  show "(ucast ((if count < size - offset then ucast count else ucast (size - offset)) :: 32 word) :: 64 word)
         = of_nat (min (unat count) (unat size - unat offset))"
  proof (cases "count < size - offset")
    case True
    then have c: "unat count < unat size - unat offset" using sub by (simp add: word_less_nat_alt)
    with small have "unat count < 2 ^ 32" by simp
    then show ?thesis using True c by (simp add: ucast_ucast_small)
  next
    case False
    then have c: "unat size - unat offset \<le> unat count" using sub by (simp add: word_less_nat_alt)
    with small sub have "unat (size - offset) < 2 ^ 32" by (simp add: min_def split: if_splits)
    then show ?thesis using False c sub by (simp add: ucast_ucast_small min_def) (metis of_nat_unat ucast_id)
  qed
qed


lemma read_debug_ip_layout_exact:
  assumes small: "min (unat count) (unat (sizeof_sect (debug_layout xdev)) - unat offset) < 2 ^ 32"
  shows "read_debug_ip_layout sizeof_sect xdev buffer offset count =
           (if offset \<ge> sizeof_sect (debug_layout xdev) then (buffer, 0)
            else ((\<lambda>i. if i < min (unat count) (unat (sizeof_sect (debug_layout xdev)) - unat offset)
                       then debug_layout xdev (unat offset + i) else buffer i),
                  of_nat (min (unat count) (unat (sizeof_sect (debug_layout xdev)) - unat offset))))"
proof (cases "offset \<ge> sizeof_sect (debug_layout xdev)")
  case True
  then show ?thesis by (simp add: read_debug_ip_layout_def)
next
  case False
  show ?thesis
    by (simp only: read_debug_ip_layout_def Let_def False if_False nread_exact [OF False small]
        memcpy_def ptr_add_def)
qed

lemma read_ip_layout_exact:
  assumes small: "min (unat count) (unat (sizeof_sect (layout xdev)) - unat offset) < 2 ^ 32"
  shows "read_ip_layout sizeof_sect xdev buffer offset count =
           (if offset \<ge> sizeof_sect (layout xdev) then (buffer, 0)
            else ((\<lambda>i. if i < min (unat count) (unat (sizeof_sect (layout xdev)) - unat offset)
                       then layout xdev (unat offset + i) else buffer i),
                  of_nat (min (unat count) (unat (sizeof_sect (layout xdev)) - unat offset))))"
proof (cases "offset \<ge> sizeof_sect (layout xdev)")
  case True
  then show ?thesis by (simp add: read_ip_layout_def)
next
  case False
  show ?thesis
    by (simp only: read_ip_layout_def Let_def False if_False nread_exact [OF False small]
        memcpy_def ptr_add_def)
qed

lemma read_connectivity_exact:
  assumes small: "min (unat count) (unat (sizeof_sect (connectivity xdev)) - unat offset) < 2 ^ 32"
  shows "read_connectivity sizeof_sect xdev buffer offset count =
           (if offset \<ge> sizeof_sect (connectivity xdev) then (buffer, 0)
            else ((\<lambda>i. if i < min (unat count) (unat (sizeof_sect (connectivity xdev)) - unat offset)
                       then connectivity xdev (unat offset + i) else buffer i),
                  of_nat (min (unat count) (unat (sizeof_sect (connectivity xdev)) - unat offset))))"
proof (cases "offset \<ge> sizeof_sect (connectivity xdev)")
  case True
  then show ?thesis by (simp add: read_connectivity_def)
next
  case False
  show ?thesis
    by (simp only: read_connectivity_def Let_def False if_False nread_exact [OF False small]
        memcpy_def ptr_add_def)
qed

lemma read_mem_topology_exact:
  assumes small: "min (unat count) (unat (sizeof_sect (topology xdev)) - unat offset) < 2 ^ 32"
  shows "read_mem_topology sizeof_sect xdev buffer offset count =
           (if offset \<ge> sizeof_sect (topology xdev) then (buffer, 0)
            else ((\<lambda>i. if i < min (unat count) (unat (sizeof_sect (topology xdev)) - unat offset)
                       then topology xdev (unat offset + i) else buffer i),
                  of_nat (min (unat count) (unat (sizeof_sect (topology xdev)) - unat offset))))"
proof (cases "offset \<ge> sizeof_sect (topology xdev)")
  case True
  then show ?thesis by (simp add: read_mem_topology_def)
next
  case False
  show ?thesis
    by (simp only: read_mem_topology_def Let_def False if_False nread_exact [OF False small]
        memcpy_def ptr_add_def)
qed


text \<open>
  Claim C1. The four read functions are reached only as the \<open>.read\<close> handlers of their
  binary attributes, and the sysfs layer asks such a handler for at most one page, so the
  requested length \<open>count\<close> is below \<open>2 ^ 32\<close>. For each of the four binary attributes
  (\<open>debug_ip_layout\<close>, \<open>ip_layout\<close>, \<open>connectivity\<close>, \<open>mem_topology\<close>), a read at
  \<open>offset\<close> with such a \<open>count\<close>, against a section whose size \<open>sizeof_sect\<close> gives,
  leaves the caller's buffer alone and returns 0 when \<open>offset >= size\<close>; otherwise, with
  \<open>n = min(count, size - offset)\<close>, it copies exactly the \<open>n\<close> bytes from byte \<open>offset\<close>
  of the section to the start of the caller's buffer, leaves the rest of that buffer alone,
  and returns \<open>n\<close>.
\<close>

theorem bin_attr_read:
  assumes attr: "(read, sect) \<in> {(read_debug_ip_layout, debug_layout), (read_ip_layout, layout),
                                 (read_connectivity, connectivity), (read_mem_topology, topology)}"
    and count: "unat count < 2 ^ 32"
    and n: "n = min (unat count) (unat (sizeof_sect (sect xdev)) - unat offset)"
  shows "read sizeof_sect xdev buffer offset count =
           (if offset \<ge> sizeof_sect (sect xdev) then (buffer, 0)
            else ((\<lambda>i. if i < n then sect xdev (unat offset + i) else buffer i), of_nat n))"
proof -
  from count n have small: "n < 2 ^ 32"
    by (simp add: min_less_iff_disj)
  from attr consider
    "read = read_debug_ip_layout" "sect = debug_layout"
    | "read = read_ip_layout" "sect = layout"
    | "read = read_connectivity" "sect = connectivity"
    | "read = read_mem_topology" "sect = topology"
    by auto
  then show ?thesis
  proof cases
    case 1
    with small n show ?thesis by (simp only: read_debug_ip_layout_exact)
  next
    case 2
    with small n show ?thesis by (simp only: read_ip_layout_exact)
  next
    case 3
    with small n show ?thesis by (simp only: read_connectivity_exact)
  next
    case 4
    with small n show ?thesis by (simp only: read_mem_topology_exact)
  qed
qed

theorem bin_attr_read_witness:
  "fst (read_ip_layout (\<lambda>s. 8) \<lparr>debug_layout = (\<lambda>i. 0), layout = (\<lambda>i. of_nat i),
       connectivity = (\<lambda>i. 0), topology = (\<lambda>i. 0)\<rparr> (\<lambda>i. 0) 5 100) 0 = 5
   \<and> fst (read_ip_layout (\<lambda>s. 8) \<lparr>debug_layout = (\<lambda>i. 0), layout = (\<lambda>i. of_nat i),
       connectivity = (\<lambda>i. 0), topology = (\<lambda>i. 0)\<rparr> (\<lambda>i. 0) 5 100) 2 = 7
   \<and> fst (read_ip_layout (\<lambda>s. 8) \<lparr>debug_layout = (\<lambda>i. 0), layout = (\<lambda>i. of_nat i),
       connectivity = (\<lambda>i. 0), topology = (\<lambda>i. 0)\<rparr> (\<lambda>i. 0) 5 100) 3 = 0
   \<and> snd (read_ip_layout (\<lambda>s. 8) \<lparr>debug_layout = (\<lambda>i. 0), layout = (\<lambda>i. of_nat i),
       connectivity = (\<lambda>i. 0), topology = (\<lambda>i. 0)\<rparr> (\<lambda>i. 0) 5 100) = 3
   \<and> read_mem_topology (\<lambda>s. 8) \<lparr>debug_layout = (\<lambda>i. 0), layout = (\<lambda>i. of_nat i),
       connectivity = (\<lambda>i. 0), topology = (\<lambda>i. 0)\<rparr> (\<lambda>i. 0) 8 4096 = ((\<lambda>i. 0), 0)"
  using bin_attr_read [of read_ip_layout layout 100 3 "\<lambda>s. 8"
      "\<lparr>debug_layout = (\<lambda>i. 0), layout = (\<lambda>i. of_nat i),
        connectivity = (\<lambda>i. 0), topology = (\<lambda>i. 0)\<rparr>" 5 "\<lambda>i. 0"]
    bin_attr_read [of read_mem_topology topology 4096 0 "\<lambda>s. 8"
      "\<lparr>debug_layout = (\<lambda>i. 0), layout = (\<lambda>i. of_nat i),
        connectivity = (\<lambda>i. 0), topology = (\<lambda>i. 0)\<rparr>" 8 "\<lambda>i. 0"]
  by simp

section \<open>Properties of the xclbin sections of a device\<close>

text \<open>
  The loop of \<open>register_axlf\<close> touches the section map only: a kind already in the map keeps
  its bytes, and a kind of the list that is not gets the bytes of its section, when the image
  has one.
\<close>

lemma register_axlf_loop_uuid:
  "m_xclbin_uuid (register_axlf_loop gs top' ks d) = m_xclbin_uuid d"
  by (induction ks arbitrary: d) (simp_all add: Let_def split: option.split)

lemma register_axlf_loop_sections:
  "m_axlf_sections (register_axlf_loop gs top' ks d) k =
     (case m_axlf_sections d k of
        Some v \<Rightarrow> Some v
      | None \<Rightarrow>
          if k \<in> set ks then
            (case gs top' k of
               None \<Rightarrow> None
             | Some hdr \<Rightarrow>
                 Some (map (\<lambda>i. axlf_bytes top' (unat (m_sectionOffset hdr) + i))
                        [0 ..< unat (m_sectionSize hdr)]))
          else None)"
proof (induction ks arbitrary: d)
  case Nil
  then show ?case by (simp split: option.split)
next
  case (Cons kind ks)
  show ?case
  proof (cases "gs top' kind")
    case None
    then show ?thesis
      using Cons.IH [of d] by (auto split: option.split)
  next
    case (Some hdr)
    then show ?thesis
      using Cons.IH [of "d\<lparr>m_axlf_sections := emplace (m_axlf_sections d) kind
          (map (ptr_add (axlf_bytes top') (unat (m_sectionOffset hdr))) [0 ..< unat (m_sectionSize hdr)])\<rparr>"]
      by (auto simp: Let_def emplace_def ptr_add_def split: option.split)
  qed
qed

lemma register_axlf_uuid:
  "m_xclbin_uuid (register_axlf gs top' d) = header_uuid (m_header top')"
  unfolding register_axlf_def Let_def
  by (simp only: register_axlf_loop_uuid) simp

lemma register_axlf_sections:
  "m_axlf_sections (register_axlf gs top' d) k =
     (if k \<in> set kinds then
        (case gs top' k of
           None \<Rightarrow> None
         | Some hdr \<Rightarrow>
             Some (map (\<lambda>i. axlf_bytes top' (unat (m_sectionOffset hdr) + i))
                    [0 ..< unat (m_sectionSize hdr)]))
      else None)"
  unfolding register_axlf_def Let_def
  by (simp only: register_axlf_loop_sections) simp

lemma set_kinds:
  "set kinds = {EMBEDDED_METADATA, AIE_METADATA, IP_LAYOUT, CONNECTIVITY, MEM_TOPOLOGY}"
  by (simp add: kinds_def)

text \<open>
  Claim C5. After \<open>register_axlf(top)\<close> the uuid of the device is the one of the header of
  \<open>top\<close>; the section map, whatever it held before, holds for each of the five kinds
  exactly the bytes of that section of \<open>top\<close> (from \<open>m_sectionOffset\<close>, \<open>m_sectionSize\<close>
  of them) when \<open>top\<close> has it, and nothing for any other kind; and a kind the map does not
  hold is looked up as \<open>(nullptr, 0)\<close> and is an error for \<open>get_axlf_section_or_error\<close>.
\<close>

theorem register_axlf_replaces_sections:
  "m_xclbin_uuid (register_axlf xclbin_get_axlf_section top' d) = header_uuid (m_header top')
   \<and> m_axlf_sections (register_axlf xclbin_get_axlf_section top' d) kind =
       (if kind \<in> {EMBEDDED_METADATA, AIE_METADATA, IP_LAYOUT, CONNECTIVITY, MEM_TOPOLOGY} then
          (case xclbin_get_axlf_section top' kind of
             None \<Rightarrow> None
           | Some hdr \<Rightarrow>
               Some (map (\<lambda>i. axlf_bytes top' (unat (m_sectionOffset hdr) + i))
                      [0 ..< unat (m_sectionSize hdr)]))
        else None)
   \<and> (m_axlf_sections (register_axlf xclbin_get_axlf_section top' d) kind = None \<longrightarrow>
        fst (get_axlf_section empty_null kind uuid_null
              (register_axlf xclbin_get_axlf_section top' d)) = Inr (None, 0)
        \<and> fst (get_axlf_section_or_error empty_null kind uuid_null
              (register_axlf xclbin_get_axlf_section top' d))
            = Inl (runtime_error ''no such xclbin section''))"
proof (intro conjI)
  show "m_xclbin_uuid (register_axlf xclbin_get_axlf_section top' d) = header_uuid (m_header top')"
    by (rule register_axlf_uuid)
  show "m_axlf_sections (register_axlf xclbin_get_axlf_section top' d) kind =
       (if kind \<in> {EMBEDDED_METADATA, AIE_METADATA, IP_LAYOUT, CONNECTIVITY, MEM_TOPOLOGY} then
          (case xclbin_get_axlf_section top' kind of
             None \<Rightarrow> None
           | Some hdr \<Rightarrow>
               Some (map (\<lambda>i. axlf_bytes top' (unat (m_sectionOffset hdr) + i))
                      [0 ..< unat (m_sectionSize hdr)]))
        else None)"
    by (simp only: register_axlf_sections set_kinds)
  show "m_axlf_sections (register_axlf xclbin_get_axlf_section top' d) kind = None \<longrightarrow>
        fst (get_axlf_section empty_null kind uuid_null
              (register_axlf xclbin_get_axlf_section top' d)) = Inr (None, 0)
        \<and> fst (get_axlf_section_or_error empty_null kind uuid_null
              (register_axlf xclbin_get_axlf_section top' d))
            = Inl (runtime_error ''no such xclbin section'')"
    by (simp add: get_axlf_section_def get_axlf_section_or_error_def uuid_bool_def)
qed


theorem register_axlf_replaces_sections_witness:
  "m_axlf_sections
     (register_axlf
        (\<lambda>t k. if k = IP_LAYOUT
               then Some \<lparr>m_sectionKind = IP_LAYOUT, m_sectionOffset = 2, m_sectionSize = 3\<rparr>
               else None)
        \<lparr>m_header = \<lparr>header_uuid = 7\<rparr>, axlf_bytes = (\<lambda>i. of_nat i)\<rparr>
        \<lparr>m_device_id = 0, m_xclbin_uuid = 1,
         m_axlf_sections = [OTHER_KIND 0 \<mapsto> [9], IP_LAYOUT \<mapsto> [8]]\<rparr>) IP_LAYOUT = Some [2, 3, 4]
   \<and> fst (get_axlf_section_or_error True (OTHER_KIND 0) uuid_null
       (register_axlf
        (\<lambda>t k. if k = IP_LAYOUT
               then Some \<lparr>m_sectionKind = IP_LAYOUT, m_sectionOffset = 2, m_sectionSize = 3\<rparr>
               else None)
        \<lparr>m_header = \<lparr>header_uuid = 7\<rparr>, axlf_bytes = (\<lambda>i. of_nat i)\<rparr>
        \<lparr>m_device_id = 0, m_xclbin_uuid = 1,
         m_axlf_sections = [OTHER_KIND 0 \<mapsto> [9], IP_LAYOUT \<mapsto> [8]]\<rparr>))
      = Inl (runtime_error ''no such xclbin section'')"
  using register_axlf_replaces_sections [of
        "\<lambda>t k. if k = IP_LAYOUT
               then Some \<lparr>m_sectionKind = IP_LAYOUT, m_sectionOffset = 2, m_sectionSize = 3\<rparr>
               else None"
        "\<lparr>m_header = \<lparr>header_uuid = 7\<rparr>, axlf_bytes = (\<lambda>i. of_nat i)\<rparr>"
        "\<lparr>m_device_id = 0, m_xclbin_uuid = 1,
         m_axlf_sections = [OTHER_KIND 0 \<mapsto> [9], IP_LAYOUT \<mapsto> [8]]\<rparr>" IP_LAYOUT True]
      register_axlf_replaces_sections [of
        "\<lambda>t k. if k = IP_LAYOUT
               then Some \<lparr>m_sectionKind = IP_LAYOUT, m_sectionOffset = 2, m_sectionSize = 3\<rparr>
               else None"
        "\<lparr>m_header = \<lparr>header_uuid = 7\<rparr>, axlf_bytes = (\<lambda>i. of_nat i)\<rparr>"
        "\<lparr>m_device_id = 0, m_xclbin_uuid = 1,
         m_axlf_sections = [OTHER_KIND 0 \<mapsto> [9], IP_LAYOUT \<mapsto> [8]]\<rparr>" "OTHER_KIND 0" True]
  by (simp add: upt_rec)

text \<open>
  Claim C2. \<open>get_axlf_section\<close> throws the \<open>std::runtime_error\<close> "xclbin id mismatch"
  if and only if the given id is not null and differs from the uuid of the device; it ends in
  no other exception; the device is the same after the call; and after \<open>register_axlf(top)\<close>
  the uuid compared with is the one of the header of \<open>top\<close>.
\<close>

theorem get_axlf_section_id_check:
  "(fst (get_axlf_section empty_null section xclbin_id d) = Inl (runtime_error ''xclbin id mismatch'')
      \<longleftrightarrow> xclbin_id \<noteq> uuid_null \<and> xclbin_id \<noteq> m_xclbin_uuid d)
   \<and> (isl (fst (get_axlf_section empty_null section xclbin_id d))
      \<longleftrightarrow> xclbin_id \<noteq> uuid_null \<and> xclbin_id \<noteq> m_xclbin_uuid d)
   \<and> snd (get_axlf_section empty_null section xclbin_id d) = d
   \<and> (fst (get_axlf_section empty_null section xclbin_id
              (register_axlf xclbin_get_axlf_section top' d))
         = Inl (runtime_error ''xclbin id mismatch'')
      \<longleftrightarrow> xclbin_id \<noteq> uuid_null \<and> xclbin_id \<noteq> header_uuid (m_header top'))"
  by (simp add: get_axlf_section_def uuid_bool_def register_axlf_uuid split: option.split)

theorem get_axlf_section_id_check_witness:
  "fst (get_axlf_section True IP_LAYOUT 5
          \<lparr>m_device_id = 0, m_xclbin_uuid = 7, m_axlf_sections = [IP_LAYOUT \<mapsto> [1]]\<rparr>)
     = Inl (runtime_error ''xclbin id mismatch'')
   \<and> \<not> isl (fst (get_axlf_section True IP_LAYOUT 7
          \<lparr>m_device_id = 0, m_xclbin_uuid = 7, m_axlf_sections = [IP_LAYOUT \<mapsto> [1]]\<rparr>))
   \<and> \<not> isl (fst (get_axlf_section True IP_LAYOUT 0
          \<lparr>m_device_id = 0, m_xclbin_uuid = 7, m_axlf_sections = [IP_LAYOUT \<mapsto> [1]]\<rparr>))"
  using get_axlf_section_id_check [of True IP_LAYOUT 5
          "\<lparr>m_device_id = 0, m_xclbin_uuid = 7, m_axlf_sections = [IP_LAYOUT \<mapsto> [1]]\<rparr>"]
    get_axlf_section_id_check [of True IP_LAYOUT 7
          "\<lparr>m_device_id = 0, m_xclbin_uuid = 7, m_axlf_sections = [IP_LAYOUT \<mapsto> [1]]\<rparr>"]
    get_axlf_section_id_check [of True IP_LAYOUT 0
          "\<lparr>m_device_id = 0, m_xclbin_uuid = 7, m_axlf_sections = [IP_LAYOUT \<mapsto> [1]]\<rparr>"]
  by (simp add: uuid_null_def)

text \<open>
  Claim C3, as the code has it. When the id check passes, \<open>get_axlf_section_or_error\<close>
  returns the pointer to the stored bytes and their number when the section is in the map and
  its data pointer is not null, and throws the \<open>std::runtime_error\<close>
  "no such xclbin section" when the section is not in the map, or is in it with a null data
  pointer (an empty section, where \<open>data()\<close> of the vector is null). \<open>get_ert_slots()\<close>
  throws a \<open>std::runtime_error\<close> when the map has no \<open>EMBEDDED_METADATA\<close> section.
\<close>

theorem get_axlf_section_or_error_result:
  "fst (get_axlf_section_or_error empty_null section xclbin_id d) =
     (if xclbin_id \<noteq> uuid_null \<and> xclbin_id \<noteq> m_xclbin_uuid d
      then Inl (runtime_error ''xclbin id mismatch'')
      else
        (case m_axlf_sections d section of
           None \<Rightarrow> Inl (runtime_error ''no such xclbin section'')
         | Some v \<Rightarrow>
             if v = [] \<and> empty_null then Inl (runtime_error ''no such xclbin section'')
             else Inr (Some v, of_nat (length v))))
   \<and> (m_axlf_sections d EMBEDDED_METADATA = None \<longrightarrow>
        fst (get_ert_slots empty_null ERT_CQ_SIZE get_ert_slotsize get_cus get_max_cu_size d)
          = Inl (runtime_error ''No xml metadata in xclbin''))"
  by (simp add: get_axlf_section_or_error_def get_axlf_section_def get_ert_slots_def uuid_bool_def
      vector_data_def vector_size_def split: option.split)

theorem get_axlf_section_or_error_result_witness:
  "fst (get_axlf_section_or_error True IP_LAYOUT 1
         \<lparr>m_device_id = 0, m_xclbin_uuid = 1, m_axlf_sections = [IP_LAYOUT \<mapsto> [8, 9]]\<rparr>)
     = Inr (Some [8, 9], 2)
   \<and> fst (get_ert_slots True 65536 0 (\<lambda>p n. Inr []) (\<lambda>p n. Inr 0)
         \<lparr>m_device_id = 0, m_xclbin_uuid = 1, m_axlf_sections = [IP_LAYOUT \<mapsto> [8, 9]]\<rparr>)
     = Inl (runtime_error ''No xml metadata in xclbin'')"
  using get_axlf_section_or_error_result [of True IP_LAYOUT 1
         "\<lparr>m_device_id = 0, m_xclbin_uuid = 1, m_axlf_sections = [IP_LAYOUT \<mapsto> [8, 9]]\<rparr>"
         65536 0 "\<lambda>p n. Inr []" "\<lambda>p n. Inr 0"]
  by (simp add: uuid_null_def)

text \<open>
  Claim C3 as stated has the pair returned whenever the section is registered. A section of
  size 0 is registered by \<open>register_axlf\<close> as an empty vector; where the data pointer of an
  empty vector is null, the lookup cannot tell it from a missing one and throws.
\<close>

theorem get_axlf_section_or_error_counterexample:
  "m_axlf_sections
     (register_axlf
        (\<lambda>t k. if k = IP_LAYOUT
               then Some \<lparr>m_sectionKind = IP_LAYOUT, m_sectionOffset = 2, m_sectionSize = 0\<rparr>
               else None)
        \<lparr>m_header = \<lparr>header_uuid = 7\<rparr>, axlf_bytes = (\<lambda>i. of_nat i)\<rparr>
        \<lparr>m_device_id = 0, m_xclbin_uuid = 0, m_axlf_sections = Map.empty\<rparr>) IP_LAYOUT = Some []
   \<and> fst (get_axlf_section_or_error True IP_LAYOUT uuid_null
       (register_axlf
        (\<lambda>t k. if k = IP_LAYOUT
               then Some \<lparr>m_sectionKind = IP_LAYOUT, m_sectionOffset = 2, m_sectionSize = 0\<rparr>
               else None)
        \<lparr>m_header = \<lparr>header_uuid = 7\<rparr>, axlf_bytes = (\<lambda>i. of_nat i)\<rparr>
        \<lparr>m_device_id = 0, m_xclbin_uuid = 0, m_axlf_sections = Map.empty\<rparr>))
      = Inl (runtime_error ''no such xclbin section'')"
  by (simp add: register_axlf_def kinds_def emplace_def get_axlf_section_or_error_def
      get_axlf_section_def uuid_bool_def vector_data_def)

section \<open>Properties of the command queue slots\<close>

text \<open>
  The arithmetic of the default path, on natural numbers: with a queue of \<open>Q\<close> bytes, a
  positive multiple of 128, a first slot count between 16 and 128 and a largest CU size of at
  most \<open>Q\<close>, the slot size is positive and the slot count is between 1 and 128. Rounding a
  count above 16 up to a status register boundary gives 32, 64, 96 or 128.
\<close>

lemma slot_size_nat:
  fixes Q S0 M :: nat
  assumes Q: "0 < Q" "128 dvd Q" and S0: "16 \<le> S0" "S0 \<le> 128" and M: "M \<le> Q"
  shows "0 < max (Q div S0) M" and "max (Q div S0) M \<le> Q"
    and "1 \<le> Q div max (Q div S0) M" and "Q div max (Q div S0) M \<le> 128"
proof -
  from Q obtain q0 where q0: "Q = 128 * q0" "0 < q0" by auto
  have "Q div 128 \<le> Q div S0"
    using S0 by (intro div_le_mono2) simp_all
  with q0 have lo: "q0 \<le> max (Q div S0) M" by simp
  with q0 show pos: "0 < max (Q div S0) M" by simp
  show le: "max (Q div S0) M \<le> Q"
    using M by simp
  from pos le show "1 \<le> Q div max (Q div S0) M"
    by (simp add: Suc_le_eq div_greater_zero_iff)
  have "Q div max (Q div S0) M \<le> Q div q0"
    using lo q0 by (intro div_le_mono2) simp_all
  also have "\<dots> = 128" using q0 by simp
  finally show "Q div max (Q div S0) M \<le> 128" .
qed

lemma round_slots:
  fixes s :: "64 word"
  assumes "16 < s" "s \<le> 128"
  shows "((s - 1) div 32 + 1) * 32 \<in> {32, 64, 96, 128}"
proof -
  have s: "16 < unat s" "unat s \<le> 128"
    using assms by (simp_all add: word_less_nat_alt word_le_nat_alt)
  then have "unat (s - 1) = unat s - 1"
    by (simp add: unat_sub word_le_nat_alt)
  then have "unat ((s - 1) div 32) = (unat s - 1) div 32"
    by (simp add: unat_div)
  with s have "unat ((s - 1) div 32) \<le> 3" by simp
  then have "unat ((s - 1) div 32) \<in> {0, 1, 2, 3}" by auto
  then have "(s - 1) div 32 \<in> {0, 1, 2, 3}"
    by (auto simp: word_unat_eq_iff)
  then show ?thesis by auto
qed


lemma initial_slots_bounds:
  fixes x :: "64 word"
  shows "16 \<le> min 128 (max 16 x)" and "min 128 (max 16 x) \<le> 128"
  by (auto simp: min_def max_def)

text \<open>
  Claim C4. When xrt.ini gives a slot size \<open>s\<close> other than 0, \<open>get_ert_slots(xml_data,
  xml_size)\<close> throws the \<open>std::runtime_error\<close> "invalid slot size 's' in xrt.ini" if and
  only if \<open>ERT_CQ_SIZE / s > 128\<close>, and otherwise returns \<open>(ERT_CQ_SIZE / s, s)\<close>; the
  readers of the xml metadata have no part in the outcome, whatever they would do.
\<close>

theorem get_ert_slots_xml_config:
  assumes "s \<noteq> 0"
  shows "get_ert_slots_xml ERT_CQ_SIZE s get_cus get_max_cu_size xml_data xml_size =
           (if ERT_CQ_SIZE div s > 128
            then Inl (runtime_error
                   (''invalid slot size '' @ [apostrophe] @ std_to_string (unat s) @
                    [apostrophe] @ '' in xrt.ini''))
            else Inr (ERT_CQ_SIZE div s, s))"
  using assms by (simp add: get_ert_slots_xml_def bind_result_def size_div_def)

theorem get_ert_slots_xml_config_witness:
  "get_ert_slots_xml 65536 4096 (\<lambda>p n. Inl (other_exception ''bad xml'')) (\<lambda>p n. Inr 0) None 0
     = Inr (16, 4096)
   \<and> get_ert_slots_xml 65536 256 (\<lambda>p n. Inl (other_exception ''bad xml'')) (\<lambda>p n. Inr 0) None 0
     = Inl (runtime_error (''invalid slot size '' @ [apostrophe] @ ''256'' @
                    [apostrophe] @ '' in xrt.ini''))"
  using get_ert_slots_xml_config [of 4096 65536 "\<lambda>p n. Inl (other_exception ''bad xml'')"
          "\<lambda>p n. Inr 0" None 0]
        get_ert_slots_xml_config [of 256 65536 "\<lambda>p n. Inl (other_exception ''bad xml'')"
          "\<lambda>p n. Inr 0" None 0]
  by (simp add: std_to_string_def digit_char_def)

text \<open>
  Claim C8. When xrt.ini gives no slot size, the readers of the xml metadata return, and the
  largest CU size is at most \<open>ERT_CQ_SIZE\<close>, then \<open>get_ert_slots(xml_data, xml_size)\<close>
  returns a pair \<open>(slots, ERT_CQ_SIZE / slots)\<close> with \<open>1 <= slots <= 128\<close> and
  \<open>slots\<close> a multiple of 32 when above 16; no division by zero happens on the way. The
  constant \<open>ERT_CQ_SIZE\<close> is a parameter: what the property needs of it is that it is a
  positive multiple of 128, as the \<open>0x10000\<close> of ert.h is.
\<close>

theorem get_ert_slots_xml_default:
  assumes cq: "ERT_CQ_SIZE \<noteq> 0" "ERT_CQ_SIZE mod 128 = 0"
    and cus: "get_cus xml_data xml_size = Inr cus"
    and mcu: "get_max_cu_size xml_data xml_size = Inr max_cu_size"
    and le: "max_cu_size \<le> ERT_CQ_SIZE"
  shows "\<exists>slots. get_ert_slots_xml ERT_CQ_SIZE 0 get_cus get_max_cu_size xml_data xml_size
                   = Inr (slots, ERT_CQ_SIZE div slots)
           \<and> 1 \<le> slots \<and> slots \<le> 128 \<and> (slots > 16 \<longrightarrow> slots mod 32 = 0)"
proof -
  define s0 :: "64 word" where "s0 = min 128 (max 16 ((of_nat (length cus) * 2) + 1))"
  define sz where "sz = max (ERT_CQ_SIZE div s0) max_cu_size"
  define s1 where "s1 = ERT_CQ_SIZE div sz"
  define s2 where "s2 = (if s1 > 16 then ((s1 - 1) div 32 + 1) * 32 else s1)"
  have s0: "16 \<le> s0" "s0 \<le> 128"
    unfolding s0_def by (rule initial_slots_bounds)+
  then have s0n: "16 \<le> unat s0" "unat s0 \<le> 128"
    by (simp_all add: word_le_nat_alt)
  then have s0_nz: "s0 \<noteq> 0" by auto
  have "unat (ERT_CQ_SIZE mod 128) = 0" using cq(2) by simp
  then have Q: "0 < unat ERT_CQ_SIZE" "128 dvd unat ERT_CQ_SIZE"
    using cq(1) by (simp_all add: unat_gt_0 unat_mod dvd_eq_mod_eq_0)
  have M: "unat max_cu_size \<le> unat ERT_CQ_SIZE"
    using le by (simp add: word_le_nat_alt)
  have usz: "unat sz = max (unat ERT_CQ_SIZE div unat s0) (unat max_cu_size)"
    unfolding sz_def by (simp add: max_def word_le_nat_alt unat_div)
  note nat = slot_size_nat [OF Q s0n M, folded usz]
  from nat(1) have sz_nz: "sz \<noteq> 0" by auto
  have us1: "unat s1 = unat ERT_CQ_SIZE div unat sz"
    unfolding s1_def by (simp add: unat_div)
  from nat(3,4) have s1: "1 \<le> s1" "s1 \<le> 128"
    by (simp_all add: word_le_nat_alt us1)
  have s2: "1 \<le> s2 \<and> s2 \<le> 128 \<and> (s2 > 16 \<longrightarrow> s2 mod 32 = 0)"
  proof (cases "s1 > 16")
    case True
    from round_slots [OF True s1(2)] True show ?thesis
      unfolding s2_def by auto
  next
    case False
    with s1 show ?thesis unfolding s2_def by simp
  qed
  then have s2_nz: "s2 \<noteq> 0" by auto
  have r: "get_ert_slots_xml ERT_CQ_SIZE 0 get_cus get_max_cu_size xml_data xml_size
          = Inr (s2, ERT_CQ_SIZE div s2)"
  proof (cases "s1 > 16")
    case True
    then have eq: "s2 = ((s1 - 1) div 32 + 1) * 32" by (simp add: s2_def)
    show ?thesis
      using s0_nz sz_nz s2_nz True unfolding eq
      by (simp add: get_ert_slots_xml_def bind_result_def size_div_def cus mcu Let_def
          s0_def [symmetric] sz_def [symmetric] s1_def [symmetric])
  next
    case False
    then have eq: "s2 = s1" by (simp add: s2_def)
    show ?thesis
      using s0_nz sz_nz s2_nz False unfolding eq
      by (simp add: get_ert_slots_xml_def bind_result_def size_div_def cus mcu Let_def
          s0_def [symmetric] sz_def [symmetric] s1_def [symmetric])
  qed
  show ?thesis
  proof (intro exI conjI)
    show "get_ert_slots_xml ERT_CQ_SIZE 0 get_cus get_max_cu_size xml_data xml_size
            = Inr (s2, ERT_CQ_SIZE div s2)"
      by (fact r)
    show "1 \<le> s2" using s2 by (rule conjunct1)
    show "s2 \<le> 128" using s2 by (rule conjunct2 [THEN conjunct1])
    show "16 < s2 \<longrightarrow> s2 mod 32 = 0" using s2 by (rule conjunct2 [THEN conjunct2])
  qed
qed


theorem get_ert_slots_xml_default_witness:
  "get_ert_slots_xml 65536 0 (\<lambda>p n. Inr [0, 0, 0, 0, 0, 0, 0, 0]) (\<lambda>p n. Inr 64) (Some [1]) 1
     = Inr (32, 2048)"
  using get_ert_slots_xml_default [of 65536 "\<lambda>p n. Inr [0, 0, 0, 0, 0, 0, 0, 0]" "Some [1]" 1
          "[0, 0, 0, 0, 0, 0, 0, 0]" "\<lambda>p n. Inr 64" 64]
  by (simp add: get_ert_slots_xml_def bind_result_def size_div_def)

section \<open>Properties of the attribute tables\<close>

text \<open>Widening an \<open>int\<close> to \<open>ssize_t\<close> keeps its value.\<close>

lemma sint_scast_int:
  fixes ret :: "32 word"
  shows "sint (scast ret :: 64 word) = sint ret"
  by (rule sint_up_scast) (simp add: is_up)

text \<open>
  Claim C6. The attribute group holds, as device attributes, \<open>xclbinuuid\<close>, \<open>userbar\<close>,
  \<open>kdsstat\<close>, \<open>memstat\<close>, \<open>memstat_raw\<close> and \<open>user_pf\<close>, each with mode 0444 (292), a
  \<open>show\<close> handler and no \<open>store\<close> handler, and \<open>reset\<close> with mode 0200 (128), no
  \<open>show\<close> handler and the \<open>store\<close> handler \<open>reset_store\<close>, the only \<open>store\<close> handler
  of the group; \<open>reset_store\<close> returns the input count when the reset returns 0 and the
  reset's error code otherwise; and the group holds, as binary attributes, \<open>debug_ip_layout\<close>,
  \<open>ip_layout\<close>, \<open>connectivity\<close> and \<open>mem_topology\<close>, each with mode 0444, its own
  \<open>read\<close> handler and no \<open>write\<close> handler.
\<close>

theorem xocl_attr_group_contents:
  "map (\<lambda>a. (name (attr a), mode (attr a), show_fn a \<noteq> None, store_fn a \<noteq> None))
       (attrs xocl_attr_group)
     = [(''xclbinuuid'', 292, True, False), (''userbar'', 292, True, False),
        (''kdsstat'', 292, True, False), (''memstat'', 292, True, False),
        (''memstat_raw'', 292, True, False), (''user_pf'', 292, True, False),
        (''reset'', 128, False, True)]
   \<and> map store_fn (filter (\<lambda>a. store_fn a \<noteq> None) (attrs xocl_attr_group)) = [Some reset_store]
   \<and> (xocl_hot_reset dev False = 0 \<longrightarrow> reset_store xocl_hot_reset dev buf count = count)
   \<and> (xocl_hot_reset dev False \<noteq> 0 \<longrightarrow>
        sint (reset_store xocl_hot_reset dev buf count) = sint (xocl_hot_reset dev False))
   \<and> map (\<lambda>b. (name (bin_attr b), mode (bin_attr b), read_fn b, write_fn b))
       (bin_attrs xocl_attr_group)
     = [(''debug_ip_layout'', 292, Some read_debug_ip_layout, None),
        (''ip_layout'', 292, Some read_ip_layout, None),
        (''connectivity'', 292, Some read_connectivity, None),
        (''mem_topology'', 292, Some read_mem_topology, None)]"
proof (intro conjI)
  show "map (\<lambda>a. (name (attr a), mode (attr a), show_fn a \<noteq> None, store_fn a \<noteq> None))
       (attrs xocl_attr_group)
     = [(''xclbinuuid'', 292, True, False), (''userbar'', 292, True, False),
        (''kdsstat'', 292, True, False), (''memstat'', 292, True, False),
        (''memstat_raw'', 292, True, False), (''user_pf'', 292, True, False),
        (''reset'', 128, False, True)]"
    by (simp add: xocl_attr_group_def xocl_attrs_def dev_attr_xclbinuuid_def dev_attr_userbar_def
        dev_attr_kdsstat_def dev_attr_memstat_def dev_attr_memstat_raw_def dev_attr_user_pf_def
        dev_attr_reset_def DEVICE_ATTR_RO_def DEVICE_ATTR_WO_def mode_0444_def mode_0200_def)
  show "map store_fn (filter (\<lambda>a. store_fn a \<noteq> None) (attrs xocl_attr_group)) = [Some reset_store]"
    by (simp add: xocl_attr_group_def xocl_attrs_def dev_attr_xclbinuuid_def dev_attr_userbar_def
        dev_attr_kdsstat_def dev_attr_memstat_def dev_attr_memstat_raw_def dev_attr_user_pf_def
        dev_attr_reset_def DEVICE_ATTR_RO_def DEVICE_ATTR_WO_def)
  show "xocl_hot_reset dev False = 0 \<longrightarrow> reset_store xocl_hot_reset dev buf count = count"
    by (simp add: reset_store_def)
  show "xocl_hot_reset dev False \<noteq> 0 \<longrightarrow>
        sint (reset_store xocl_hot_reset dev buf count) = sint (xocl_hot_reset dev False)"
    by (simp add: reset_store_def sint_scast_int)
  show "map (\<lambda>b. (name (bin_attr b), mode (bin_attr b), read_fn b, write_fn b))
       (bin_attrs xocl_attr_group)
     = [(''debug_ip_layout'', 292, Some read_debug_ip_layout, None),
        (''ip_layout'', 292, Some read_ip_layout, None),
        (''connectivity'', 292, Some read_connectivity, None),
        (''mem_topology'', 292, Some read_mem_topology, None)]"
    by (simp add: xocl_attr_group_def xocl_bin_attrs_def debug_ip_layout_attr_def
        ip_layout_attr_def connectivity_attr_def mem_topology_attr_def mode_0444_def)
qed

theorem xocl_attr_group_contents_witness:
  "reset_store (\<lambda>d b. 0) \<lparr>debug_layout = (\<lambda>i. 0), layout = (\<lambda>i. 0),
       connectivity = (\<lambda>i. 0), topology = (\<lambda>i. 0)\<rparr> ''1'' 2 = 2
   \<and> sint (reset_store (\<lambda>d b. - 16) \<lparr>debug_layout = (\<lambda>i. 0), layout = (\<lambda>i. 0),
       connectivity = (\<lambda>i. 0), topology = (\<lambda>i. 0)\<rparr> ''1'' 2) = - 16"
  using xocl_attr_group_contents [of "\<lambda>d b. 0" "\<lparr>debug_layout = (\<lambda>i. 0), layout = (\<lambda>i. 0),
       connectivity = (\<lambda>i. 0), topology = (\<lambda>i. 0)\<rparr>" "''1''" 2]
    xocl_attr_group_contents [of "\<lambda>d b. - 16" "\<lparr>debug_layout = (\<lambda>i. 0), layout = (\<lambda>i. 0),
       connectivity = (\<lambda>i. 0), topology = (\<lambda>i. 0)\<rparr>" "''1''" 2]
  by simp

text \<open>
  Claim C7. \<open>xocl_init_sysfs\<close> returns what \<open>sysfs_create_group\<close> returned for the
  attribute group, so it returns 0 exactly when the creation succeeded; it logs one error
  with that code when the code is not 0, and nothing otherwise.
\<close>

theorem xocl_init_sysfs_propagates:
  "fst (xocl_init_sysfs sysfs_create_group log) = sysfs_create_group xocl_attr_group
   \<and> (fst (xocl_init_sysfs sysfs_create_group log) = 0
        \<longleftrightarrow> sysfs_create_group xocl_attr_group = 0)
   \<and> snd (xocl_init_sysfs sysfs_create_group log) =
       (if sysfs_create_group xocl_attr_group = 0 then log
        else log @ [(''create xocl attrs failed: %d'', sint (sysfs_create_group xocl_attr_group))])"
  by (simp add: xocl_init_sysfs_def xocl_err_def Let_def)

theorem xocl_init_sysfs_propagates_witness:
  "xocl_init_sysfs (\<lambda>g. 0) [] = (0, [])
   \<and> xocl_init_sysfs (\<lambda>g. - 12) [] = (- 12, [(''create xocl attrs failed: %d'', - 12)])"
  using xocl_init_sysfs_propagates [of "\<lambda>g. 0" "[]"]
    xocl_init_sysfs_propagates [of "\<lambda>g. - 12" "[]"]
  by (simp add: prod_eq_iff)

section \<open>Properties of the formatting functions\<close>

text \<open>
  A rendering in a base from 2 to 16 reads back as the number rendered; a 64-bit shift to
  the left by 30 multiplies by \<open>2 ^ 30\<close> modulo \<open>2 ^ 64\<close>.
\<close>

lemma digit_value_digit_char:
  assumes "d < 16"
  shows "digit_value (digit_char d) = d"
proof -
  from assms have "d \<in> {0, 1, 2, 3, 4, 5, 6, 7, 8, 9, 10, 11, 12, 13, 14, 15}"
    by (simp only: insert_iff empty_iff) arith
  then show ?thesis
    by (auto simp: digit_char_def digit_value_def)
qed

lemma of_digits_to_digits:
  assumes "2 \<le> b" "b \<le> 16"
  shows "of_digits b (to_digits b n) = n"
  using assms
proof (induction b n rule: to_digits.induct)
  case (1 b n)
  show ?case
  proof (cases "n < b")
    case True
    with 1 have "n < 16" by simp
    then show ?thesis
      using True by (subst to_digits.simps) (simp add: of_digits_def digit_value_digit_char)
  next
    case False
    from 1(2) have "n mod b < b" by simp
    with 1(3) have "n mod b < 16" by simp
    moreover have "of_digits b (to_digits b (n div b)) = n div b"
      using 1 False by simp
    ultimately show ?thesis
      using False 1(2)
      by (subst to_digits.simps) (simp add: of_digits_def digit_value_digit_char)
  qed
qed

lemma unat_shiftup30:
  fixes v :: "64 word"
  shows "unat (push_bit 30 v) = (unat v * 2 ^ 30) mod 2 ^ 64"
proof -
  have "unat (push_bit 30 v) = take_bit 64 (push_bit 30 (unat v))"
    by (simp only: unsigned_push_bit_eq) simp
  then show ?thesis
    by (simp only: take_bit_eq_mod push_bit_eq_mult)
qed

text \<open>
  Claim C9. \<open>format_hex_base2_shiftup30\<close> on a \<open>uint64_t\<close> returns "0x" followed by the
  base 16 digits of the value times \<open>2 ^ 30\<close> modulo \<open>2 ^ 64\<close>; on a \<open>uint16_t\<close> or a
  \<open>uint8_t\<close>, whatever its value, it throws the \<open>xrt_core::error\<close> for an unsupported
  type, the type being \<open>int\<close>.
\<close>

theorem format_hex_base2_shiftup30_cases:
  "format_hex_base2_shiftup30 (Any_uint64_t v)
     = Inr (''0x'' @ to_digits 16 ((unat v * 2 ^ 30) mod 2 ^ 64))
   \<and> format_hex_base2_shiftup30 (Any_uint16_t w) = Inl (error_unsupported_any_typeid typeid_int)
   \<and> format_hex_base2_shiftup30 (Any_uint8_t b) = Inl (error_unsupported_any_typeid typeid_int)"
  by (simp add: format_0x_def unat_shiftup30 del: to_digits.simps)

theorem format_hex_base2_shiftup30_cases_witness:
  "format_hex_base2_shiftup30 (Any_uint64_t 3) = Inr ''0xc0000000''
   \<and> format_hex_base2_shiftup30 (Any_uint16_t 3) = Inl (error_unsupported_any_typeid typeid_int)
   \<and> format_hex_base2_shiftup30 (Any_uint8_t 3) = Inl (error_unsupported_any_typeid typeid_int)"
  using format_hex_base2_shiftup30_cases [of 3 3 3]
  by (simp add: digit_char_def)

section \<open>Properties of the xclbin uuid query\<close>

text \<open>
  Claim C10. \<open>get_xclbin_uuid\<close> never ends in \<open>query::no_such_key\<close>; when the query
  throws it, the null uuid is returned; when the query returns a string, the uuid
  constructed from that string is returned.
\<close>

theorem get_xclbin_uuid_no_such_key:
  "get_xclbin_uuid device_query_xclbin_uuid uuid_of_string this \<noteq> Inl no_such_key
   \<and> (device_query_xclbin_uuid this = Inl no_such_key \<longrightarrow>
        get_xclbin_uuid device_query_xclbin_uuid uuid_of_string this = Inr uuid_null)
   \<and> (device_query_xclbin_uuid this = Inr uuid_str \<and> uuid_of_string uuid_str = Inr u \<longrightarrow>
        get_xclbin_uuid device_query_xclbin_uuid uuid_of_string this = Inr u)"
  by (auto simp: get_xclbin_uuid_def bind_result_def split: sum.splits failure.splits)

theorem get_xclbin_uuid_no_such_key_witness:
  "get_xclbin_uuid (\<lambda>d. Inl no_such_key) (\<lambda>s. Inr 5)
     \<lparr>m_device_id = 0, m_xclbin_uuid = 0, m_axlf_sections = Map.empty\<rparr> = Inr uuid_null
   \<and> get_xclbin_uuid (\<lambda>d. Inr ''5'') (\<lambda>s. Inr 5)
     \<lparr>m_device_id = 0, m_xclbin_uuid = 0, m_axlf_sections = Map.empty\<rparr> = Inr 5"
  using get_xclbin_uuid_no_such_key [of "\<lambda>d. Inl no_such_key" "\<lambda>s. Inr 5"
      "\<lparr>m_device_id = 0, m_xclbin_uuid = 0, m_axlf_sections = Map.empty\<rparr>"]
    get_xclbin_uuid_no_such_key [of "\<lambda>d. Inr ''5''" "\<lambda>s. Inr 5"
      "\<lparr>m_device_id = 0, m_xclbin_uuid = 0, m_axlf_sections = Map.empty\<rparr>" "''5''" 5]
  by simp

end
